theory Spec2Isabelle
  imports Complex_Main "HOL-Library.Char_ord" "HOL-Library.List_Lexorder" "HOL-Library.Multiset"
begin

section \<open>Strings\<close>

text \<open>
  A Python \<open>str\<close> is modelled as a \<^typ>\<open>string\<close> whose characters are the code
  points below 256 (Basic Latin and Latin-1 Supplement), which cover the Spanish sheet
  names and headers of the workbook. \<open>str.upper\<close> maps \<open>a..z\<close> and the Latin-1
  lower-case letters to their capitals and the sharp s to \<open>SS\<close>; the two letters
  whose capital lies beyond code point 255 (the micro sign and y with diaeresis) are kept.
  \<open>str.strip\<close> removes the white space of that range at both ends.
\<close>

text \<open>The capital of a lower-case letter is 32 code points below it: bit 5 is cleared.\<close>

fun minus32 :: "char \<Rightarrow> char" where
  "minus32 (Char b0 b1 b2 b3 b4 b5 b6 b7) = Char b0 b1 b2 b3 b4 False b6 b7"

definition upper_char :: "char \<Rightarrow> string" where
  "upper_char c =
     (let n = (of_char c :: nat) in
      if 97 \<le> n \<and> n \<le> 122 then [minus32 c]
      else if n = 223 then ''SS''
      else if 224 \<le> n \<and> n \<le> 254 \<and> n \<noteq> 247 then [minus32 c]
      else [c])"

definition upper :: "string \<Rightarrow> string" where
  "upper s = concat (map upper_char s)"

definition isspace :: "char \<Rightarrow> bool" where
  "isspace c =
     (let n = (of_char c :: nat) in
      (9 \<le> n \<and> n \<le> 13) \<or> (28 \<le> n \<and> n \<le> 32) \<or> n = 133 \<or> n = 160)"

definition strip :: "string \<Rightarrow> string" where
  "strip s = rev (dropWhile isspace (rev (dropWhile isspace s)))"

text \<open>The test \<open>pattern in text\<close> on strings.\<close>

fun starts_with :: "string \<Rightarrow> string \<Rightarrow> bool" where
  "starts_with s [] = True"
| "starts_with [] (p # ps) = False"
| "starts_with (c # cs) (p # ps) = (c = p \<and> starts_with cs ps)"

fun str_in :: "string \<Rightarrow> string \<Rightarrow> bool" where
  "str_in p [] = (p = [])"
| "str_in p (c # cs) = (starts_with (c # cs) p \<or> str_in p cs)"

section \<open>Cells and numeric coercion\<close>

text \<open>
  The sheets are read with \<open>dtype=str\<close>: a cell is a string, or NaN when it is empty.
  After \<open>pd.to_numeric\<close> a cell is a number. Numbers are exact rationals here: every
  plain decimal literal denotes one, and the sums of the aggregation are then exact.
\<close>

datatype cell = NaN | Str string | Num rat

definition is_digit :: "char \<Rightarrow> bool" where
  "is_digit c = (let n = (of_char c :: nat) in 48 \<le> n \<and> n \<le> 57)"

definition digits_val :: "string \<Rightarrow> nat" where
  "digits_val ds = foldl (\<lambda>acc c. 10 * acc + (of_char c - 48)) 0 ds"

text \<open>
  The parser of \<open>pd.to_numeric\<close> on one string, for plain decimal literals: an optional
  sign, digits, and at most one decimal point with digits on one side of it at least.
  Every other string is not a number (\<open>None\<close>), in particular the empty string, text,
  and a literal with two points such as \<open>1.000.000\<close>. Exponents, infinities and
  surrounding blanks, which pandas reads too, are outside this fragment.
\<close>

definition parse_unsigned :: "string \<Rightarrow> rat option" where
  "parse_unsigned body =
     (let ip = takeWhile is_digit body; rest = dropWhile is_digit body in
      case rest of
        [] \<Rightarrow> if ip = [] then None else Some (of_nat (digits_val ip))
      | c # fp \<Rightarrow>
          if c = CHR ''.'' \<and> list_all is_digit fp \<and> (ip \<noteq> [] \<or> fp \<noteq> [])
          then Some (of_nat (digits_val (ip @ fp)) / 10 ^ length fp)
          else None)"

definition parse_number :: "string \<Rightarrow> rat option" where
  "parse_number s =
     (case s of
        [] \<Rightarrow> None
      | c # r \<Rightarrow>
          if c = CHR ''-'' then map_option uminus (parse_unsigned r)
          else if c = CHR ''+'' then parse_unsigned r
          else parse_unsigned s)"

text \<open>\<open>pd.to_numeric(column, errors='coerce')\<close> on one cell: what does not parse is NaN.\<close>

fun to_numeric :: "cell \<Rightarrow> cell" where
  "to_numeric NaN = NaN"
| "to_numeric (Num r) = Num r"
| "to_numeric (Str s) = (case parse_number s of None \<Rightarrow> NaN | Some r \<Rightarrow> Num r)"

text \<open>\<open>.fillna(v)\<close> on one cell.\<close>

fun fillna :: "cell \<Rightarrow> cell \<Rightarrow> cell" where
  "fillna v NaN = v"
| "fillna v c = c"

text \<open>
  \<open>pd.to_numeric(column, errors='coerce').fillna(0)\<close> on one cell: the value of the
  float column that results.
\<close>

definition numeric_fillna0 :: "cell \<Rightarrow> rat" where
  "numeric_fillna0 c = (case to_numeric c of Num r \<Rightarrow> r | NaN \<Rightarrow> 0 | Str s \<Rightarrow> 0)"

section \<open>Data frames\<close>

text \<open>
  A frame is its list of column labels and its rows. A row that is shorter than the header
  reads as NaN beyond its end, as \<open>read_excel\<close> fills a short row.
\<close>

datatype frame = Frame (columns: "string list") (rows: "cell list list")

definition cell_at :: "cell list \<Rightarrow> nat \<Rightarrow> cell" where
  "cell_at r i = (if i < length r then r ! i else NaN)"

definition set_cell :: "cell list \<Rightarrow> nat \<Rightarrow> cell \<Rightarrow> cell list" where
  "set_cell r i v = (r @ replicate (Suc i - length r) NaN)[i := v]"

definition remove_nth :: "nat \<Rightarrow> 'a list \<Rightarrow> 'a list" where
  "remove_nth i xs = take i xs @ drop (Suc i) xs"

text \<open>
  The exceptions of the frame operations. A label that several columns carry makes
  \<open>df[label]\<close> a frame instead of a column; what pandas does with it afterwards depends
  on the operation and is not modelled further: the model stops there with
  \<open>DuplicateLabel\<close>, which says nothing about what the program returns.
\<close>

datatype py_exc = KeyError string | DuplicateLabel string | ValueError string

definition col_index :: "string list \<Rightarrow> string \<Rightarrow> py_exc + nat" where
  "col_index cols name =
     (case filter (\<lambda>i. cols ! i = name) [0..<length cols] of
        [] \<Rightarrow> Inl (KeyError name)
      | [i] \<Rightarrow> Inr i
      | i # j # _ \<Rightarrow> Inl (DuplicateLabel name))"

text \<open>\<open>find_column(df, patterns)\<close>, on the labels of \<open>df\<close>.\<close>

fun find_column :: "string list \<Rightarrow> string list \<Rightarrow> string option" where
  "find_column [] patterns = None"
| "find_column (col # cols) patterns =
     (if list_ex (\<lambda>pattern. str_in pattern (upper col)) patterns then Some col
      else find_column cols patterns)"

text \<open>Python's \<open>not x\<close> on the result of \<open>find_column\<close>: None and the empty string.\<close>

definition falsy :: "string option \<Rightarrow> bool" where
  "falsy r = (case r of None \<Rightarrow> True | Some c \<Rightarrow> c = [])"

text \<open>
  \<open>df.rename(columns=m)\<close>. The dictionary \<open>m\<close> is keyed by results of \<open>find_column\<close>,
  so a key may be None; a later entry of a dictionary literal replaces an earlier one with
  the same key, as a map update does.
\<close>

type_synonym rename_map = "string option \<rightharpoonup> string"

definition rename :: "frame \<Rightarrow> rename_map \<Rightarrow> frame" where
  "rename df m =
     Frame (map (\<lambda>c. case m (Some c) of None \<Rightarrow> c | Some n \<Rightarrow> n) (columns df)) (rows df)"

text \<open>\<open>df[df['CEDULA'].notna() & (df['CEDULA'] != '')]\<close>\<close>

definition has_cedula :: "cell \<Rightarrow> bool" where
  "has_cedula c = (c \<noteq> NaN \<and> c \<noteq> Str [])"

definition filter_cedula :: "frame \<Rightarrow> py_exc + frame" where
  "filter_cedula df =
     (case col_index (columns df) ''CEDULA'' of
        Inl e \<Rightarrow> Inl e
      | Inr i \<Rightarrow> Inr (Frame (columns df) (filter (\<lambda>r. has_cedula (cell_at r i)) (rows df))))"

text \<open>
  A frame indexed by one of its columns (\<open>set_index\<close>): each row is the index value and
  the remaining cells. \<open>reset_index\<close> puts the index back as the first column.
\<close>

datatype iframe = IFrame (icolumns: "string list") (irows: "(cell \<times> cell list) list")

definition set_index :: "frame \<Rightarrow> string \<Rightarrow> py_exc + iframe" where
  "set_index df name =
     (case col_index (columns df) name of
        Inl e \<Rightarrow> Inl e
      | Inr i \<Rightarrow>
          Inr (IFrame (remove_nth i (columns df))
                 (map (\<lambda>r. (cell_at r i, remove_nth i r)) (rows df))))"

definition reset_index :: "string \<Rightarrow> iframe \<Rightarrow> frame" where
  "reset_index name df = Frame (name # icolumns df) (map (\<lambda>(k, r). k # r) (irows df))"

text \<open>\<open>df[[a, b]]\<close> on an indexed frame.\<close>

definition select2 :: "iframe \<Rightarrow> string \<Rightarrow> string \<Rightarrow> py_exc + iframe" where
  "select2 df a b =
     (case col_index (icolumns df) a of
        Inl e \<Rightarrow> Inl e
      | Inr i \<Rightarrow>
          (case col_index (icolumns df) b of
             Inl e \<Rightarrow> Inl e
           | Inr j \<Rightarrow>
               Inr (IFrame [a, b] (map (\<lambda>(k, r). (k, [cell_at r i, cell_at r j])) (irows df)))))"

text \<open>
  \<open>left.join(right, how='left')\<close> on the indexes: the rows of \<open>left\<close> in their order,
  each once for every row of \<open>right\<close> with its key, or once with NaN when there is none.
  \<open>n\<close> is the number of columns of \<open>right\<close>.
\<close>

definition join_row :: "nat \<Rightarrow> (cell \<times> cell list) list \<Rightarrow> cell \<times> cell list \<Rightarrow> (cell \<times> cell list) list" where
  "join_row n right l =
     (case filter (\<lambda>r. fst r = fst l) right of
        [] \<Rightarrow> [(fst l, snd l @ replicate n NaN)]
      | m # ms \<Rightarrow> map (\<lambda>r. (fst l, snd l @ snd r)) (m # ms))"

definition join_left :: "iframe \<Rightarrow> iframe \<Rightarrow> iframe" where
  "join_left left right =
     IFrame (icolumns left @ icolumns right)
       (concat (map (join_row (length (icolumns right)) (irows right)) (irows left)))"

section \<open>Loading the workbook\<close>

text \<open>
  A workbook is the list of its sheets in order, each with its name and its table as
  \<open>pd.read_excel(..., dtype=str)\<close> returns it. Sheet names of a workbook are distinct,
  so the sheet \<open>sheet_names[normalized_sheet_names.index(name)]\<close> that is read by name is
  the first sheet whose normalised name is \<open>name\<close>.
\<close>

type_synonym workbook = "(string \<times> frame) list"

definition normalized_sheet_names :: "workbook \<Rightarrow> string list" where
  "normalized_sheet_names wb = map (\<lambda>sheet. upper (strip (fst sheet))) wb"

definition REQUIRED_SHEETS_MAPPING :: "(string \<times> string) list" where
  "REQUIRED_SHEETS_MAPPING =
     [(''hoja 1'', ''INFORMACION''), (''hoja 3'', ''COMENTARIOS''), (''hoja 4'', ''NOMINA'')]"

definition MIN_MONTHLY_SHEET :: nat where
  "MIN_MONTHLY_SHEET = 7"

text \<open>
  What \<open>load_data\<close> reports before it returns None: the message about a required sheet
  (its name and its key), the message about the columns of the first sheet, or the
  message of the final \<open>except Exception\<close> with the exception caught.
\<close>

datatype failure = MissingSheet string string | MissingIdOrName | Critical py_exc

definition required_sheet :: "workbook \<Rightarrow> string \<times> string \<Rightarrow> failure + frame" where
  "required_sheet wb entry =
     (case find (\<lambda>sheet. upper (strip (fst sheet)) = snd entry) wb of
        None \<Rightarrow> Inl (MissingSheet (snd entry) (fst entry))
      | Some sheet \<Rightarrow> Inr (snd sheet))"

text \<open>The header patterns with their accented capitals (code points 201 and 218).\<close>

definition PAT_CEDULA :: string where
  "PAT_CEDULA = ''C'' @ [CHR 0xC9] @ ''DULA''"

definition PAT_NUMERO_DE_CONTACTO :: string where
  "PAT_NUMERO_DE_CONTACTO = ''N'' @ [CHR 0xDA] @ ''MERO DE CONTACTO''"

definition PAT_TECNICO :: string where
  "PAT_TECNICO = ''T'' @ [CHR 0xC9] @ ''CNICO''"

definition PAT_TELEFONO :: string where
  "PAT_TELEFONO = ''TEL'' @ [CHR 0xC9] @ ''FONO''"

subsection \<open>The monthly sheets\<close>

definition is_monthly :: "nat \<Rightarrow> string \<Rightarrow> bool" where
  "is_monthly i normalized_name =
     (normalized_name \<notin> set (map snd REQUIRED_SHEETS_MAPPING) \<and>
      str_in ''2025'' normalized_name \<and>
      i \<ge> MIN_MONTHLY_SHEET - 1)"

text \<open>
  The monthly tables with their month label, from the loop over
  \<open>enumerate(sheet_names)\<close>; \<open>normalized_sheet_names[i]\<close> is the normalised name of the
  sheet at \<open>i\<close>. The column \<open>MES\<close> that is assigned to each table holds the label in
  every row; it is appended when the sheet has no such column.
\<close>

definition assign_mes :: "frame \<Rightarrow> frame" where
  "assign_mes df =
     (if ''MES'' \<in> set (columns df) then df else Frame (columns df @ [''MES'']) (rows df))"

definition df_horas_extras_list :: "workbook \<Rightarrow> (string \<times> frame) list" where
  "df_horas_extras_list wb =
     map (\<lambda>(i, sheet). (strip (fst sheet), assign_mes (snd sheet)))
       (filter (\<lambda>(i, sheet). is_monthly i (upper (strip (fst sheet)))) (enumerate 0 wb))"

definition he_sheet_names_of :: "workbook \<Rightarrow> string list" where
  "he_sheet_names_of wb = map fst (df_horas_extras_list wb)"

subsection \<open>The three fixed sheets\<close>

definition process_empleados :: "frame \<Rightarrow> failure + frame" where
  "process_empleados df =
     (let id_col_emp = find_column (columns df) [PAT_CEDULA, ''ID'', PAT_NUMERO_DE_CONTACTO];
          name_col_emp = find_column (columns df) [''NOMBRE'', PAT_TECNICO, ''EMPLEADO''];
          phone_col_emp = find_column (columns df) [PAT_TELEFONO, ''CONTACTO'']
      in if falsy id_col_emp \<or> falsy name_col_emp then Inl MissingIdOrName
         else
           let m = [id_col_emp \<mapsto> ''CEDULA'', name_col_emp \<mapsto> ''NOMBRE''];
               rename_map_emp = (if \<not> falsy phone_col_emp then m(phone_col_emp \<mapsto> ''TELEFONO'') else m)
           in case filter_cedula (rename df rename_map_emp) of
                Inl e \<Rightarrow> Inl (Critical e)
              | Inr d \<Rightarrow> Inr d)"

text \<open>\<open>df[['CEDULA', 'COMENTARIOS']].set_index('CEDULA')\<close>\<close>

definition select_comentarios :: "frame \<Rightarrow> py_exc + iframe" where
  "select_comentarios df =
     (case col_index (columns df) ''CEDULA'' of
        Inl e \<Rightarrow> Inl e
      | Inr i \<Rightarrow>
          (case col_index (columns df) ''COMENTARIOS'' of
             Inl e \<Rightarrow> Inl e
           | Inr j \<Rightarrow>
               Inr (IFrame [''COMENTARIOS''] (map (\<lambda>r. (cell_at r i, [cell_at r j])) (rows df)))))"

definition process_comentarios :: "frame \<Rightarrow> py_exc + iframe" where
  "process_comentarios df =
     (let id_col_com = find_column (columns df) [PAT_CEDULA, ''ID''];
          comment_col = find_column (columns df) [''COMENTARIOS'', ''OBSERVACIONES'']
      in case filter_cedula (rename df [id_col_com \<mapsto> ''CEDULA'', comment_col \<mapsto> ''COMENTARIOS'']) of
           Inl e \<Rightarrow> Inl e
         | Inr d \<Rightarrow> select_comentarios d)"

definition num_cols :: "string list" where
  "num_cols = [''SALARIO_BASE'', ''CONTRIBUCION_EMPR'', ''CONTRIBUCION_EMPL'', ''APORTE_ARL'',
               ''SALARIO_REAL'', ''SALARIO_BRUTO'', ''HORAS_EXTRA_NOM'', ''TOTAL_PAGAR_NOM'']"

definition rename_map_nom :: "string list \<Rightarrow> rename_map" where
  "rename_map_nom cols =
     [find_column cols [''SALARIO BASE''] \<mapsto> ''SALARIO_BASE'',
      find_column cols [''CONTRIBUCIONES EMPLEADOR'', ''CONTRIBUCIONES DEL EMPLEADOR''] \<mapsto> ''CONTRIBUCION_EMPR'',
      find_column cols [''CONTRIBUCIONES EMPLEADO'', ''CONTRIBUCIONES DEL EMPLEADO''] \<mapsto> ''CONTRIBUCION_EMPL'',
      find_column cols [''APORTE ARL''] \<mapsto> ''APORTE_ARL'',
      find_column cols [''SALARIO REAL''] \<mapsto> ''SALARIO_REAL'',
      find_column cols [''SALARIO BRUTO''] \<mapsto> ''SALARIO_BRUTO'',
      find_column cols [''HORAS EXTRA''] \<mapsto> ''HORAS_EXTRA_NOM'',
      find_column cols [''TOTAL A PAGAR AL EMPLEADO''] \<mapsto> ''TOTAL_PAGAR_NOM'']"

definition coerce_column :: "frame \<Rightarrow> nat \<Rightarrow> frame" where
  "coerce_column df i =
     Frame (columns df) (map (\<lambda>r. set_cell r i (Num (numeric_fillna0 (cell_at r i)))) (rows df))"

text \<open>The loop over \<open>num_cols\<close>: a column is converted only if it is there.\<close>

fun convert_num_cols :: "string list \<Rightarrow> frame \<Rightarrow> py_exc + frame" where
  "convert_num_cols [] df = Inr df"
| "convert_num_cols (col # cs) df =
     (if col \<in> set (columns df)
      then (case col_index (columns df) col of
              Inl e \<Rightarrow> Inl e
            | Inr i \<Rightarrow> convert_num_cols cs (coerce_column df i))
      else convert_num_cols cs df)"

definition process_nomina :: "frame \<Rightarrow> py_exc + iframe" where
  "process_nomina df =
     (let id_col_nom = find_column (columns df) [PAT_CEDULA, ''ID'']
      in case filter_cedula (rename df [id_col_nom \<mapsto> ''CEDULA'']) of
           Inl e \<Rightarrow> Inl e
         | Inr d \<Rightarrow>
             (case convert_num_cols num_cols (rename d (rename_map_nom (columns d))) of
                Inl e \<Rightarrow> Inl e
              | Inr d' \<Rightarrow> set_index d' ''CEDULA''))"

subsection \<open>Payroll figures copied into the comments\<close>

text \<open>
  \<open>df[label].fillna(0, inplace=True)\<close> on an indexed frame; the call changes the
  column of the frame itself, as it does in pandas without copy-on-write.
\<close>

definition fillna0_col :: "iframe \<Rightarrow> string \<Rightarrow> py_exc + iframe" where
  "fillna0_col df label =
     (case col_index (icolumns df) label of
        Inl e \<Rightarrow> Inl e
      | Inr i \<Rightarrow>
          Inr (IFrame (icolumns df)
                 (map (\<lambda>(k, r). (k, set_cell r i (fillna (Num 0) (cell_at r i)))) (irows df))))"

definition combine_comentarios :: "iframe \<Rightarrow> iframe \<Rightarrow> py_exc + iframe" where
  "combine_comentarios df_comentarios df_nomina =
     (case select2 df_nomina ''HORAS_EXTRA_NOM'' ''TOTAL_PAGAR_NOM'' of
        Inl e \<Rightarrow> Inl e
      | Inr sel \<Rightarrow>
          (case fillna0_col (join_left df_comentarios sel) ''HORAS_EXTRA_NOM'' of
             Inl e \<Rightarrow> Inl e
           | Inr d \<Rightarrow> fillna0_col d ''TOTAL_PAGAR_NOM''))"

subsection \<open>The overtime tables, from wide to long\<close>

text \<open>
  A row of the melted table: \<open>CEDULA\<close>, \<open>MES\<close>, \<open>CLASIFICACION\<close> and \<open>HORAS\<close>.
  The labels of a sheet as \<open>read_excel\<close> returns it are distinct (a repeated header
  is renamed), so a label stands for the first position that carries it.
\<close>

datatype he_row = HeRow (cedula: cell) (mes: string) (clasificacion: string) (horas: rat)

definition index_of :: "string \<Rightarrow> string list \<Rightarrow> nat" where
  "index_of name cols = length (takeWhile (\<lambda>c. c \<noteq> name) cols)"

definition classification_cols :: "string list \<Rightarrow> string list" where
  "classification_cols cols =
     map snd (filter (\<lambda>(i, col). i > 1 \<and> (str_in ''HORA EXTRA'' (upper col) \<or> str_in ''RECARGO'' (upper col)))
                (enumerate 0 cols))"

text \<open>
  \<open>df.melt(id_vars=[id, 'MES'], value_vars=cs, ...)\<close>, with \<open>HORAS\<close> made numeric: the
  rows of the first value column in their order, then those of the second, and so on.
\<close>

definition melt :: "frame \<Rightarrow> string \<Rightarrow> string \<Rightarrow> string list \<Rightarrow> he_row list" where
  "melt df id_col_he label cs =
     concat (map (\<lambda>col. map (\<lambda>r. HeRow (cell_at r (index_of id_col_he (columns df))) label col
                                     (numeric_fillna0 (cell_at r (index_of col (columns df)))))
                           (rows df)) cs)"

text \<open>One monthly table; None where the loop says \<open>continue\<close>.\<close>

definition process_month :: "string \<times> frame \<Rightarrow> he_row list option" where
  "process_month m =
     (let label = fst m; df_month = snd m
      in case find_column (columns df_month) [PAT_CEDULA, ''ID''] of
           None \<Rightarrow> None
         | Some id_col_he \<Rightarrow>
             if id_col_he = [] then None
             else
               let cs = classification_cols (columns df_month)
               in if cs = [] then None
                  else Some (filter (\<lambda>e. horas e > 0) (melt df_month id_col_he label cs)))"

definition process_horas_extras :: "(string \<times> frame) list \<Rightarrow> he_row list" where
  "process_horas_extras ms =
     filter (\<lambda>e. has_cedula (cedula e)) (concat (map (\<lambda>m. case process_month m of None \<Rightarrow> [] | Some es \<Rightarrow> es) ms))"

subsection \<open>load_data\<close>

record model =
  empleados :: frame
  comentarios :: frame
  nomina :: frame
  horas_extras :: "he_row list"
  he_sheet_names :: "string list"

definition load_frames :: "workbook \<Rightarrow> frame \<Rightarrow> frame \<Rightarrow> frame \<Rightarrow> failure + model" where
  "load_frames wb df_empleados df_comentarios df_nomina =
     (case process_empleados df_empleados of
        Inl f \<Rightarrow> Inl f
      | Inr emp \<Rightarrow>
          (case process_comentarios df_comentarios of
             Inl e \<Rightarrow> Inl (Critical e)
           | Inr com \<Rightarrow>
               (case process_nomina df_nomina of
                  Inl e \<Rightarrow> Inl (Critical e)
                | Inr nom \<Rightarrow>
                    (case combine_comentarios com nom of
                       Inl e \<Rightarrow> Inl (Critical e)
                     | Inr com' \<Rightarrow>
                         Inr \<lparr>empleados = emp,
                              comentarios = reset_index ''CEDULA'' com',
                              nomina = reset_index ''CEDULA'' nom,
                              horas_extras = process_horas_extras (df_horas_extras_list wb),
                              he_sheet_names = he_sheet_names_of wb\<rparr>))))"

definition load_data :: "workbook \<Rightarrow> failure + model" where
  "load_data wb =
     (case required_sheet wb (''hoja 1'', ''INFORMACION'') of
        Inl f \<Rightarrow> Inl f
      | Inr df_empleados \<Rightarrow>
          (case required_sheet wb (''hoja 3'', ''COMENTARIOS'') of
             Inl f \<Rightarrow> Inl f
           | Inr df_comentarios \<Rightarrow>
               (case required_sheet wb (''hoja 4'', ''NOMINA'') of
                  Inl f \<Rightarrow> Inl f
                | Inr df_nomina \<Rightarrow> load_frames wb df_empleados df_comentarios df_nomina)))"

section \<open>Presentation: names and the pivot\<close>

text \<open>
  \<open>main\<close> indexes the employees by \<open>CEDULA\<close>; the sections join their rows to columns of
  that table on the identity key. \<open>master_column\<close> is \<open>df_empleados_master[label]\<close>, as
  pairs of key and value.
\<close>

definition master_column :: "frame \<Rightarrow> string \<Rightarrow> py_exc + (cell \<times> cell) list" where
  "master_column df_empleados label =
     (case set_index df_empleados ''CEDULA'' of
        Inl e \<Rightarrow> Inl e
      | Inr master \<Rightarrow>
          (case col_index (icolumns master) label of
             Inl e \<Rightarrow> Inl e
           | Inr i \<Rightarrow> Inr (map (\<lambda>(k, r). (k, cell_at r i)) (irows master))))"

text \<open>
  \<open>df.join(series, on='CEDULA', how='left')\<close>: every row with each value the series has
  for its key, or with NaN when it has none.
\<close>

definition join_on :: "('a \<Rightarrow> cell) \<Rightarrow> 'a list \<Rightarrow> (cell \<times> cell) list \<Rightarrow> ('a \<times> cell) list" where
  "join_on key df series =
     concat (map (\<lambda>x. case filter (\<lambda>p. fst p = key x) series of
                         [] \<Rightarrow> [(x, NaN)]
                       | m # ms \<Rightarrow> map (\<lambda>p. (x, snd p)) (m # ms)) df)"

text \<open>
  The first step of \<open>show_horas_extras\<close>: the join with \<open>NOMBRE\<close> and
  \<open>df_he['NOMBRE'].fillna(df_he['CEDULA'])\<close>. Each row comes with its \<open>NOMBRE\<close>.
\<close>

definition he_with_names :: "frame \<Rightarrow> he_row list \<Rightarrow> py_exc + (he_row \<times> cell) list" where
  "he_with_names df_empleados df_he =
     (case master_column df_empleados ''NOMBRE'' of
        Inl e \<Rightarrow> Inl e
      | Inr names \<Rightarrow> Inr (map (\<lambda>(e, n). (e, fillna (cedula e) n)) (join_on cedula df_he names)))"

text \<open>
  The first step of \<open>show_comentarios\<close>: the join with \<open>NOMBRE\<close> and \<open>TELEFONO\<close>; no
  \<open>fillna\<close> follows. Each row of the comments comes with the \<open>NOMBRE\<close> that the header
  of its card formats (\<open>item.get('NOMBRE', 'N/A')\<close> is the value of the column, which is
  there), paired here with its \<open>CEDULA\<close>.
\<close>

definition comentarios_with_names :: "frame \<Rightarrow> frame \<Rightarrow> py_exc + (cell \<times> cell) list" where
  "comentarios_with_names df_empleados df_comentarios =
     (case master_column df_empleados ''NOMBRE'' of
        Inl e \<Rightarrow> Inl e
      | Inr names \<Rightarrow>
          (case master_column df_empleados ''TELEFONO'' of
             Inl e \<Rightarrow> Inl e
           | Inr phones \<Rightarrow>
               (case col_index (columns df_comentarios) ''CEDULA'' of
                  Inl e \<Rightarrow> Inl e
                | Inr i \<Rightarrow>
                    Inr (map (\<lambda>(r, n). (cell_at r i, n))
                           (join_on (\<lambda>r. cell_at r i) (rows df_comentarios) names)))))"

subsection \<open>The pivot table\<close>

text \<open>
  The rows that enter the pivot: \<open>NOMBRE\<close>, \<open>CLASIFICACION\<close>, \<open>HORAS\<close>. Names are
  strings, as all the sheets are read as text; \<open>pivot_table\<close> leaves out a row whose key
  is NaN.
\<close>

type_synonym entry = "string \<times> string \<times> rat"

definition pivot_rows :: "(he_row \<times> cell) list \<Rightarrow> entry list" where
  "pivot_rows df =
     concat (map (\<lambda>(e, n). case n of Str s \<Rightarrow> [(s, clasificacion e, horas e)] | _ \<Rightarrow> []) df)"

definition total_where :: "(entry \<Rightarrow> bool) \<Rightarrow> entry list \<Rightarrow> rat" where
  "total_where P es = sum_list (map (\<lambda>e. snd (snd e)) (filter P es))"

definition margins_name :: string where
  "margins_name = ''TOTAL GENERAL''"

text \<open>
  \<open>pd.pivot_table(values='HORAS', index='NOMBRE', columns='CLASIFICACION', aggfunc='sum',
  fill_value=0, margins=True, margins_name='TOTAL GENERAL')\<close>: the names and the
  classifications in sorted order, one cell for each pair with the sum of its group (0 for
  an empty one), and the margins, which pandas computes from the data: the sum of each
  name as the last column, the sum of each classification as the last row, the sum of all
  in the corner. A name equal to the label of the margins is refused (ValueError).
  \<open>show_horas_extras\<close> builds the table only for a selection that is not empty.
\<close>

datatype pivot = Pivot (pindex: "string list") (pcolumns: "string list") (pvalues: "rat list list")

definition pivot_table :: "entry list \<Rightarrow> py_exc + pivot" where
  "pivot_table es =
     (let names = sort (remdups (map fst es));
          cs = sort (remdups (map (\<lambda>e. fst (snd e)) es))
      in if margins_name \<in> set names then Inl (ValueError margins_name)
         else Inr (Pivot (names @ [margins_name]) (cs @ [margins_name])
                (map (\<lambda>n. map (\<lambda>c. total_where (\<lambda>e. fst e = n \<and> fst (snd e) = c) es) cs
                            @ [total_where (\<lambda>e. fst e = n) es]) names
                 @ [map (\<lambda>c. total_where (\<lambda>e. fst (snd e) = c) es) cs
                    @ [total_where (\<lambda>e. True) es]])))"

section \<open>Reading the result\<close>

text \<open>\<open>df[label]\<close> as the list of its cells.\<close>

definition get_column :: "frame \<Rightarrow> string \<Rightarrow> py_exc + cell list" where
  "get_column df label =
     (case col_index (columns df) label of
        Inl e \<Rightarrow> Inl e
      | Inr i \<Rightarrow> Inr (map (\<lambda>r. cell_at r i) (rows df)))"


definition comments_of :: "workbook \<Rightarrow> failure + frame" where
  "comments_of wb = (case load_data wb of Inl f \<Rightarrow> Inl f | Inr m \<Rightarrow> Inr (comentarios m))"

definition overtime_of :: "workbook \<Rightarrow> failure + he_row list" where
  "overtime_of wb = (case load_data wb of Inl f \<Rightarrow> Inl f | Inr m \<Rightarrow> Inr (horas_extras m))"

definition payroll_cells :: "workbook \<Rightarrow> string \<Rightarrow> cell list option" where
  "payroll_cells wb label =
     (case load_data wb of
        Inl f \<Rightarrow> None
      | Inr m \<Rightarrow> (case get_column (nomina m) label of Inl e \<Rightarrow> None | Inr cs \<Rightarrow> Some cs))"

text \<open>The cells at position \<open>i\<close> of a frame are all numbers.\<close>

definition numeric_at :: "nat \<Rightarrow> frame \<Rightarrow> bool" where
  "numeric_at i df = (\<forall>r \<in> set (rows df). \<exists>q. cell_at r i = Num q)"

section \<open>Example workbooks\<close>

text \<open>
  The end-to-end scenario: one employee, no comment for her, and her payroll row with the
  base salary written \<open>1.000.000\<close>.
\<close>

definition scenario_wb :: workbook where
  "scenario_wb =
     [(''INFORMACION'', Frame [''ID'', ''NOMBRE''] [[Str ''12345'', Str ''Jane Doe'']]),
      (''COMENTARIOS'', Frame [''ID'', ''COMENTARIOS''] []),
      (''NOMINA'',
       Frame [''ID'', ''SALARIO BASE'', ''HORAS EXTRA'', ''TOTAL A PAGAR AL EMPLEADO'']
         [[Str ''12345'', Str ''1.000.000'', Str ''0'', Str ''1000000'']])]"

text \<open>
  A workbook whose seventh sheet is the monthly sheet of the reshape example, with the
  identity and the name in its first two columns.
\<close>

definition enero_sheet :: frame where
  "enero_sheet =
     Frame [''ID'', ''NOMBRE'', ''HORA EXTRA DIURNA'', ''RECARGO NOCTURNO'']
       [[Str ''A'', Str ''Ana'', Str ''5'', Str ''0''],
        [Str ''B'', Str ''Beto'', Str ''0'', Str ''3'']]"

definition enero_wb :: workbook where
  "enero_wb =
     [(''INFORMACION'', Frame [''ID'', ''NOMBRE''] [[Str ''A'', Str ''Ana'']]),
      (''Hoja2'', Frame [] []),
      (''COMENTARIOS'', Frame [''ID'', ''COMENTARIOS''] []),
      (''NOMINA'', Frame [''ID'', ''HORAS EXTRA'', ''TOTAL A PAGAR AL EMPLEADO''] []),
      (''Hoja5'', Frame [] []),
      (''Hoja6'', Frame [] []),
      (''ENERO 2025'', enero_sheet)]"

text \<open>A workbook without a payroll sheet; the names of the other two are in lower case.\<close>

definition no_nomina_wb :: workbook where
  "no_nomina_wb =
     [('' informacion '', Frame [''ID'', ''NOMBRE''] [[Str ''12345'', Str ''Jane Doe'']]),
      (''Comentarios'', Frame [''ID'', ''COMENTARIOS''] [])]"




text \<open>
  A workbook in which every table has a row with a missing identity and a row with an
  empty one, and the model that \<open>load_data\<close> returns for it.
\<close>

definition blank_keys_wb :: workbook where
  "blank_keys_wb =
     [(''INFORMACION'', Frame [''ID'', ''NOMBRE''] [[Str ''1'', Str ''Ana''], [NaN, Str ''X''], [Str [], Str ''Y'']]),
      (''Hoja2'', Frame [] []),
      (''COMENTARIOS'', Frame [''ID'', ''COMENTARIOS''] [[NaN, Str ''a''], [Str ''1'', Str ''b''], [Str [], Str ''c'']]),
      (''NOMINA'', Frame [''ID'', ''HORAS EXTRA'', ''TOTAL A PAGAR AL EMPLEADO'']
                     [[Str [], Str ''1'', Str ''2''], [Str ''1'', Str ''3'', Str ''4''], [NaN, Str ''5'', Str ''6'']]),
      (''Hoja5'', Frame [] []),
      (''Hoja6'', Frame [] []),
      (''MAYO 2025'', Frame [''ID'', ''NOMBRE'', ''RECARGO''] [[NaN, Str ''X'', Str ''2''], [Str ''1'', Str ''Ana'', Str ''7''], [Str [], Str ''Y'', Str ''3'']])]"

definition blank_keys_model :: model where
  "blank_keys_model =
     \<lparr>empleados = Frame [''CEDULA'', ''NOMBRE''] [[Str ''1'', Str ''Ana'']],
      comentarios = Frame [''CEDULA'', ''COMENTARIOS'', ''HORAS_EXTRA_NOM'', ''TOTAL_PAGAR_NOM'']
                      [[Str ''1'', Str ''b'', Num 3, Num 4]],
      nomina = Frame [''CEDULA'', ''HORAS_EXTRA_NOM'', ''TOTAL_PAGAR_NOM''] [[Str ''1'', Num 3, Num 4]],
      horas_extras = [HeRow (Str ''1'') ''MAYO 2025'' ''RECARGO'' 7],
      he_sheet_names = [''MAYO 2025'']\<rparr>"

text \<open>
  A workbook whose payroll sheet has the identity, the base salary and the total to pay,
  but no column of overtime hours.
\<close>

definition no_overtime_column_wb :: workbook where
  "no_overtime_column_wb =
     [(''INFORMACION'', Frame [''ID'', ''NOMBRE''] [[Str ''12345'', Str ''Jane Doe'']]),
      (''COMENTARIOS'', Frame [''ID'', ''COMENTARIOS''] []),
      (''NOMINA'',
       Frame [''ID'', ''SALARIO BASE'', ''TOTAL A PAGAR AL EMPLEADO'']
         [[Str ''12345'', Str ''1000000'', Str ''1000000'']])]"

text \<open>
  One comment for the identity 1, a payroll table with one row for it, and a payroll
  table with two rows for it; and a workbook whose payroll sheet has those two rows.
\<close>

definition one_comment :: iframe where
  "one_comment = IFrame [''COMENTARIOS''] [(Str ''1'', [Str ''hola''])]"

definition payroll_once :: iframe where
  "payroll_once = IFrame [''HORAS_EXTRA_NOM'', ''TOTAL_PAGAR_NOM''] [(Str ''1'', [Num 1, Num 10])]"

definition payroll_twice :: iframe where
  "payroll_twice =
     IFrame [''HORAS_EXTRA_NOM'', ''TOTAL_PAGAR_NOM'']
       [(Str ''1'', [Num 1, Num 10]), (Str ''1'', [Num 2, Num 20])]"

definition payroll_twice_wb :: workbook where
  "payroll_twice_wb =
     [(''INFORMACION'', Frame [''ID'', ''NOMBRE''] [[Str ''1'', Str ''Ana'']]),
      (''COMENTARIOS'', Frame [''ID'', ''COMENTARIOS''] [[Str ''1'', Str ''hola'']]),
      (''NOMINA'', Frame [''ID'', ''HORAS EXTRA'', ''TOTAL A PAGAR AL EMPLEADO'']
                     [[Str ''1'', Str ''1'', Str ''10''], [Str ''1'', Str ''2'', Str ''20'']])]"






text \<open>
  A workbook with one employee, a comment for her and a comment for the identity 999,
  which no employee has; and the model that \<open>load_data\<close> returns for it.
\<close>

definition unknown_commenter_wb :: workbook where
  "unknown_commenter_wb =
     [(''INFORMACION'', Frame [''ID'', ''NOMBRE'', ''CONTACTO''] [[Str ''1'', Str ''Ana'', Str ''300'']]),
      (''COMENTARIOS'', Frame [''ID'', ''COMENTARIOS''] [[Str ''1'', Str ''hola''], [Str ''999'', Str ''tarde'']]),
      (''NOMINA'', Frame [''ID'', ''HORAS EXTRA'', ''TOTAL A PAGAR AL EMPLEADO'']
                     [[Str ''1'', Str ''2'', Str ''10'']])]"

definition unknown_commenter_model :: model where
  "unknown_commenter_model =
     \<lparr>empleados = Frame [''CEDULA'', ''NOMBRE'', ''TELEFONO''] [[Str ''1'', Str ''Ana'', Str ''300'']],
      comentarios = Frame [''CEDULA'', ''COMENTARIOS'', ''HORAS_EXTRA_NOM'', ''TOTAL_PAGAR_NOM'']
                      [[Str ''1'', Str ''hola'', Num 2, Num 10], [Str ''999'', Str ''tarde'', Num 0, Num 0]],
      nomina = Frame [''CEDULA'', ''HORAS_EXTRA_NOM'', ''TOTAL_PAGAR_NOM''] [[Str ''1'', Num 2, Num 10]],
      horas_extras = [],
      he_sheet_names = []\<rparr>"

section \<open>Evaluation of the examples\<close>

lemmas str_defs = upper_def upper_char_def strip_def isspace_def PAT_CEDULA_def
  PAT_NUMERO_DE_CONTACTO_def PAT_TECNICO_def PAT_TELEFONO_def

lemmas num_defs = numeric_fillna0_def parse_number_def parse_unsigned_def is_digit_def
  digits_val_def

lemmas frame_defs = col_index_def cell_at_def set_cell_def remove_nth_def rename_def
  filter_cedula_def has_cedula_def set_index_def reset_index_def select2_def join_row_def
  join_left_def falsy_def fillna0_col_def get_column_def coerce_column_def

lemmas load_defs = load_data_def load_frames_def required_sheet_def process_empleados_def
  process_comentarios_def select_comentarios_def process_nomina_def rename_map_nom_def
  num_cols_def combine_comentarios_def process_horas_extras_def process_month_def melt_def
  classification_cols_def index_of_def df_horas_extras_list_def he_sheet_names_of_def
  assign_mes_def is_monthly_def normalized_sheet_names_def REQUIRED_SHEETS_MAPPING_def
  MIN_MONTHLY_SHEET_def

lemma load_scenario:
  "load_data scenario_wb =
     Inr \<lparr>empleados = Frame [''CEDULA'', ''NOMBRE''] [[Str ''12345'', Str ''Jane Doe'']],
          comentarios = Frame [''CEDULA'', ''COMENTARIOS'', ''HORAS_EXTRA_NOM'', ''TOTAL_PAGAR_NOM''] [],
          nomina = Frame [''CEDULA'', ''SALARIO_BASE'', ''HORAS_EXTRA_NOM'', ''TOTAL_PAGAR_NOM'']
                     [[Str ''12345'', Num 0, Num 0, Num 1000000]],
          horas_extras = [],
          he_sheet_names = []\<rparr>"
  by (simp add: scenario_wb_def load_defs str_defs num_defs frame_defs)


lemma enero_months:
  "df_horas_extras_list enero_wb =
     [(''ENERO 2025'', Frame (columns enero_sheet @ [''MES'']) (rows enero_sheet))]"
  by (simp add: enero_wb_def enero_sheet_def df_horas_extras_list_def assign_mes_def
      is_monthly_def REQUIRED_SHEETS_MAPPING_def MIN_MONTHLY_SHEET_def str_defs)

lemma enero_rows:
  "process_horas_extras [(''ENERO 2025'', Frame (columns enero_sheet @ [''MES'']) (rows enero_sheet))] =
     [HeRow (Str ''A'') ''ENERO 2025'' ''HORA EXTRA DIURNA'' 5,
      HeRow (Str ''B'') ''ENERO 2025'' ''RECARGO NOCTURNO'' 3]"
  by (simp add: enero_sheet_def process_horas_extras_def process_month_def melt_def
      classification_cols_def index_of_def str_defs num_defs cell_at_def has_cedula_def)

lemma enero_fixed:
  "load_frames enero_wb (Frame [''ID'', ''NOMBRE''] [[Str ''A'', Str ''Ana'']])
     (Frame [''ID'', ''COMENTARIOS''] []) (Frame [''ID'', ''HORAS EXTRA'', ''TOTAL A PAGAR AL EMPLEADO''] []) =
   Inr \<lparr>empleados = Frame [''CEDULA'', ''NOMBRE''] [[Str ''A'', Str ''Ana'']],
        comentarios = Frame [''CEDULA'', ''COMENTARIOS'', ''HORAS_EXTRA_NOM'', ''TOTAL_PAGAR_NOM''] [],
        nomina = Frame [''CEDULA'', ''HORAS_EXTRA_NOM'', ''TOTAL_PAGAR_NOM''] [],
        horas_extras = process_horas_extras (df_horas_extras_list enero_wb),
        he_sheet_names = he_sheet_names_of enero_wb\<rparr>"
  by (simp add: load_frames_def process_empleados_def process_comentarios_def
      select_comentarios_def process_nomina_def rename_map_nom_def num_cols_def
      combine_comentarios_def str_defs frame_defs)

lemma overtime_enero:
  "overtime_of enero_wb =
     Inr [HeRow (Str ''A'') ''ENERO 2025'' ''HORA EXTRA DIURNA'' 5,
          HeRow (Str ''B'') ''ENERO 2025'' ''RECARGO NOCTURNO'' 3]"
proof -
  have "load_data enero_wb =
      load_frames enero_wb (Frame [''ID'', ''NOMBRE''] [[Str ''A'', Str ''Ana'']])
       (Frame [''ID'', ''COMENTARIOS''] [])
       (Frame [''ID'', ''HORAS EXTRA'', ''TOTAL A PAGAR AL EMPLEADO''] [])"
    by (simp add: load_data_def required_sheet_def enero_wb_def str_defs)
  then show ?thesis
    by (simp add: overtime_of_def enero_fixed enero_months enero_rows)
qed

lemma blank_keys_months:
  "process_horas_extras (df_horas_extras_list blank_keys_wb) = [HeRow (Str ''1'') ''MAYO 2025'' ''RECARGO'' 7]
   \<and> he_sheet_names_of blank_keys_wb = [''MAYO 2025'']"
  by (simp add: blank_keys_wb_def df_horas_extras_list_def assign_mes_def he_sheet_names_of_def
      is_monthly_def REQUIRED_SHEETS_MAPPING_def MIN_MONTHLY_SHEET_def str_defs
      process_horas_extras_def process_month_def melt_def
      classification_cols_def index_of_def num_defs cell_at_def has_cedula_def)

lemma load_blank_keys: "load_data blank_keys_wb = Inr blank_keys_model"
proof -
  have "load_data blank_keys_wb =
      load_frames blank_keys_wb (Frame [''ID'', ''NOMBRE''] [[Str ''1'', Str ''Ana''], [NaN, Str ''X''], [Str [], Str ''Y'']])
       (Frame [''ID'', ''COMENTARIOS''] [[NaN, Str ''a''], [Str ''1'', Str ''b''], [Str [], Str ''c'']])
       (Frame [''ID'', ''HORAS EXTRA'', ''TOTAL A PAGAR AL EMPLEADO'']
                     [[Str [], Str ''1'', Str ''2''], [Str ''1'', Str ''3'', Str ''4''], [NaN, Str ''5'', Str ''6'']])"
    by (simp add: load_data_def required_sheet_def blank_keys_wb_def str_defs)
  also have "\<dots> = Inr blank_keys_model"
    by (simp add: load_frames_def process_empleados_def process_comentarios_def
      select_comentarios_def process_nomina_def rename_map_nom_def num_cols_def
      combine_comentarios_def str_defs frame_defs num_defs blank_keys_months blank_keys_model_def)
  finally show ?thesis .
qed

lemma missing_overtime_column_aborts:
  "load_data no_overtime_column_wb = Inl (Critical (KeyError ''HORAS_EXTRA_NOM''))"
  by (simp add: no_overtime_column_wb_def load_defs str_defs num_defs frame_defs)

lemma comments_payroll_twice:
  "comments_of payroll_twice_wb =
     Inr (Frame [''CEDULA'', ''COMENTARIOS'', ''HORAS_EXTRA_NOM'', ''TOTAL_PAGAR_NOM'']
            [[Str ''1'', Str ''hola'', Num 1, Num 10], [Str ''1'', Str ''hola'', Num 2, Num 20]])"
  by (simp add: comments_of_def payroll_twice_wb_def load_defs str_defs num_defs frame_defs)

lemma load_unknown_commenter: "load_data unknown_commenter_wb = Inr unknown_commenter_model"
  by (simp add: unknown_commenter_wb_def unknown_commenter_model_def load_defs str_defs
      num_defs frame_defs)

section \<open>Helper lemmas\<close>

subsection \<open>Overtime rows and required sheets\<close>

lemma process_month_kept:
  "process_month m = Some es \<Longrightarrow> e \<in> set es \<Longrightarrow> 0 < horas e"
  by (auto simp: process_month_def Let_def split: option.splits if_splits)

lemma process_horas_extras_kept:
  "e \<in> set (process_horas_extras ms) \<Longrightarrow> 0 < horas e \<and> has_cedula (cedula e)"
  by (auto simp: process_horas_extras_def dest: process_month_kept [OF sym] process_month_kept
      split: option.splits)

lemma required_sheet_missing:
  "name \<notin> set (normalized_sheet_names wb) \<Longrightarrow>
   required_sheet wb (key, name) = Inl (MissingSheet name key)"
  by (force simp: required_sheet_def normalized_sheet_names_def find_Some_iff image_iff
      split: option.splits)

lemma required_sheet_present:
  "name \<in> set (normalized_sheet_names wb) \<Longrightarrow> \<exists>df. required_sheet wb (key, name) = Inr df"
  by (auto simp: required_sheet_def normalized_sheet_names_def find_None_iff split: option.splits)

subsection \<open>Looking a column up\<close>

lemma col_index_Inr_iff:
  "col_index cols name = Inr i \<longleftrightarrow> {j. j < length cols \<and> cols ! j = name} = {i}"
proof -
  define xs where "xs = filter (\<lambda>i. cols ! i = name) [0..<length cols]"
  define S where "S = {j. j < length cols \<and> cols ! j = name}"
  have s: "set xs = S" by (auto simp: xs_def S_def)
  have d: "distinct xs" by (simp add: xs_def)
  have c: "col_index cols name =
      (case xs of [] \<Rightarrow> Inl (KeyError name) | [i] \<Rightarrow> Inr i | i # j # _ \<Rightarrow> Inl (DuplicateLabel name))"
    by (simp add: col_index_def xs_def)
  have "col_index cols name = Inr i \<longleftrightarrow> S = {i}"
  proof (cases xs)
    case Nil
    with s c show ?thesis by auto
  next
    case (Cons a ys)
    show ?thesis
    proof (cases ys)
      case Nil
      with Cons s c show ?thesis by auto
    next
      case (Cons b zs)
      with \<open>xs = a # ys\<close> d have "a \<noteq> b" by auto
      moreover from Cons \<open>xs = a # ys\<close> s have "a \<in> S" "b \<in> S" by auto
      ultimately have "S \<noteq> {i}" by blast
      with Cons \<open>xs = a # ys\<close> c show ?thesis by simp
    qed
  qed
  then show ?thesis by (simp add: S_def)
qed

lemma col_index_InrD:
  "col_index cols name = Inr i \<Longrightarrow>
   i < length cols \<and> cols ! i = name \<and> (\<forall>j < length cols. cols ! j = name \<longrightarrow> j = i)"
  unfolding col_index_Inr_iff by blast

lemma col_index_head:
  assumes "name \<notin> set cols"
  shows "col_index (name # cols) name = Inr 0"
proof -
  have "j = 0" if "j < length (name # cols)" "(name # cols) ! j = name" for j
  proof (cases j)
    case (Suc k)
    with that have "k < length cols" "cols ! k = name" by auto
    with assms show ?thesis by (metis nth_mem)
  qed simp
  then show ?thesis
    unfolding col_index_Inr_iff by auto
qed

lemma remove_nth_unique:
  assumes "col_index cols name = Inr i"
  shows "name \<notin> set (remove_nth i cols)"
proof
  note u = col_index_InrD [OF assms]
  assume "name \<in> set (remove_nth i cols)"
  then consider "name \<in> set (take i cols)" | "name \<in> set (drop (Suc i) cols)"
    by (auto simp: remove_nth_def)
  then show False
  proof cases
    case 1
    then obtain j where j: "j < length (take i cols)" "take i cols ! j = name"
      unfolding in_set_conv_nth by blast
    then have "j < i" "j < length cols" "cols ! j = name" by auto
    with u show False by auto
  next
    case 2
    then obtain j where j: "j < length (drop (Suc i) cols)" "drop (Suc i) cols ! j = name"
      unfolding in_set_conv_nth by blast
    then have "Suc i + j < length cols" "cols ! (Suc i + j) = name" by auto
    with u have "Suc i + j = i" by blast
    then show False by simp
  qed
qed

subsection \<open>Identity keys through the pipeline\<close>

lemma join_row_fst:
  "x \<in> set (join_row n right l) \<Longrightarrow> fst x = fst l"
  by (cases "filter (\<lambda>r. fst r = fst l) right") (auto simp: join_row_def)

lemma join_left_keys:
  "set (map fst (irows (join_left l r))) \<subseteq> set (map fst (irows l))"
proof
  fix k assume "k \<in> set (map fst (irows (join_left l r)))"
  then obtain x y where "y \<in> set (irows l)" "x \<in> set (join_row (length (icolumns r)) (irows r) y)" "k = fst x"
    by (auto simp: join_left_def)
  then show "k \<in> set (map fst (irows l))"
    using join_row_fst by fastforce
qed

lemma get_column_reset_index:
  assumes "name \<notin> set (icolumns df)"
  shows "get_column (reset_index name df) name = Inr (map fst (irows df))"
proof -
  have "col_index (columns (reset_index name df)) name = Inr 0"
    using assms by (simp add: reset_index_def col_index_head)
  moreover have "map (\<lambda>r. cell_at r 0) (rows (reset_index name df)) = map fst (irows df)"
    by (simp add: reset_index_def cell_at_def split_def)
  ultimately show ?thesis by (simp add: get_column_def)
qed

lemma set_index_keys:
  assumes "set_index df name = Inr d"
  shows "\<exists>i. col_index (columns df) name = Inr i \<and>
             map fst (irows d) = map (\<lambda>r. cell_at r i) (rows df) \<and> name \<notin> set (icolumns d)"
proof (cases "col_index (columns df) name")
  case (Inl e)
  with assms show ?thesis by (simp add: set_index_def)
next
  case (Inr i)
  with assms have "d = IFrame (remove_nth i (columns df)) (map (\<lambda>r. (cell_at r i, remove_nth i r)) (rows df))"
    by (simp add: set_index_def)
  with Inr show ?thesis by (simp add: remove_nth_unique comp_def)
qed

lemma filter_cedula_cells:
  assumes "filter_cedula df = Inr d"
  shows "columns d = columns df \<and>
         (\<exists>i. col_index (columns df) ''CEDULA'' = Inr i \<and>
              (\<forall>r \<in> set (rows d). has_cedula (cell_at r i)))"
proof (cases "col_index (columns df) ''CEDULA''")
  case (Inl e)
  with assms show ?thesis by (simp add: filter_cedula_def)
next
  case (Inr i)
  with assms have "d = Frame (columns df) (filter (\<lambda>r. has_cedula (cell_at r i)) (rows df))"
    by (simp add: filter_cedula_def)
  with Inr show ?thesis by simp
qed

lemma filter_cedula_column:
  assumes "filter_cedula df = Inr d"
  shows "\<exists>cs. get_column d ''CEDULA'' = Inr cs \<and> list_all has_cedula cs"
proof -
  from filter_cedula_cells [OF assms] obtain i where
    i: "col_index (columns d) ''CEDULA'' = Inr i" "\<forall>r \<in> set (rows d). has_cedula (cell_at r i)"
    by auto
  then have "get_column d ''CEDULA'' = Inr (map (\<lambda>r. cell_at r i) (rows d))"
    by (simp add: get_column_def)
  moreover from i have "list_all has_cedula (map (\<lambda>r. cell_at r i) (rows d))"
    by (simp add: list_all_iff)
  ultimately show ?thesis by blast
qed

lemma fillna0_col_keys:
  assumes "fillna0_col df label = Inr d"
  shows "map fst (irows d) = map fst (irows df) \<and> icolumns d = icolumns df"
proof (cases "col_index (icolumns df) label")
  case (Inl e)
  with assms show ?thesis by (simp add: fillna0_col_def)
next
  case (Inr i)
  with assms have "d = IFrame (icolumns df)
      (map (\<lambda>(k, r). (k, set_cell r i (fillna (Num 0) (cell_at r i)))) (irows df))"
    by (simp add: fillna0_col_def)
  then show ?thesis by (simp add: split_def comp_def)
qed

lemma process_empleados_column:
  assumes "process_empleados df = Inr d"
  shows "\<exists>cs. get_column d ''CEDULA'' = Inr cs \<and> list_all has_cedula cs"
proof -
  from assms obtain m where "filter_cedula (rename df m) = Inr d"
    by (auto simp: process_empleados_def Let_def split: if_splits sum.splits)
  then show ?thesis by (rule filter_cedula_column)
qed

lemma select_comentarios_keys:
  assumes "select_comentarios d = Inr c"
  shows "\<exists>i. col_index (columns d) ''CEDULA'' = Inr i \<and>
             map fst (irows c) = map (\<lambda>r. cell_at r i) (rows d) \<and> icolumns c = [''COMENTARIOS'']"
proof (cases "col_index (columns d) ''CEDULA''")
  case (Inl e)
  with assms show ?thesis by (simp add: select_comentarios_def)
next
  case i: (Inr i)
  show ?thesis
  proof (cases "col_index (columns d) ''COMENTARIOS''")
    case (Inl e)
    with i assms show ?thesis by (simp add: select_comentarios_def)
  next
    case (Inr j)
    with i assms have "c = IFrame [''COMENTARIOS''] (map (\<lambda>r. (cell_at r i, [cell_at r j])) (rows d))"
      by (simp add: select_comentarios_def)
    with i show ?thesis by (simp add: comp_def)
  qed
qed

lemma process_comentarios_keys:
  assumes "process_comentarios df = Inr c"
  shows "list_all has_cedula (map fst (irows c)) \<and> icolumns c = [''COMENTARIOS'']"
proof -
  from assms obtain m d where d: "filter_cedula (rename df m) = Inr d" "select_comentarios d = Inr c"
    by (auto simp: process_comentarios_def Let_def split: sum.splits)
  from filter_cedula_cells [OF d(1)] obtain i where
    i: "col_index (columns d) ''CEDULA'' = Inr i" "\<forall>r \<in> set (rows d). has_cedula (cell_at r i)"
    by auto
  from select_comentarios_keys [OF d(2)] i(1)
  have "map fst (irows c) = map (\<lambda>r. cell_at r i) (rows d)" "icolumns c = [''COMENTARIOS'']"
    by auto
  with i(2) show ?thesis by (simp add: list_all_iff)
qed

lemma select2_keys:
  assumes "select2 df a b = Inr d"
  shows "map fst (irows d) = map fst (irows df) \<and> icolumns d = [a, b]"
proof (cases "col_index (icolumns df) a")
  case (Inl e)
  with assms show ?thesis by (simp add: select2_def)
next
  case i: (Inr i)
  show ?thesis
  proof (cases "col_index (icolumns df) b")
    case (Inl e)
    with i assms show ?thesis by (simp add: select2_def)
  next
    case (Inr j)
    with i assms have "d = IFrame [a, b] (map (\<lambda>(k, r). (k, [cell_at r i, cell_at r j])) (irows df))"
      by (simp add: select2_def)
    then show ?thesis by (simp add: comp_def split_def)
  qed
qed

lemma combine_comentarios_keys:
  assumes "combine_comentarios c nom = Inr c'"
  shows "set (map fst (irows c')) \<subseteq> set (map fst (irows c)) \<and>
         icolumns c' = icolumns c @ [''HORAS_EXTRA_NOM'', ''TOTAL_PAGAR_NOM'']"
proof -
  from assms obtain sel d where
    s: "select2 nom ''HORAS_EXTRA_NOM'' ''TOTAL_PAGAR_NOM'' = Inr sel"
    and d: "fillna0_col (join_left c sel) ''HORAS_EXTRA_NOM'' = Inr d"
    and c': "fillna0_col d ''TOTAL_PAGAR_NOM'' = Inr c'"
    by (auto simp: combine_comentarios_def split: sum.splits)
  from fillna0_col_keys [OF c'] fillna0_col_keys [OF d]
  have "map fst (irows c') = map fst (irows (join_left c sel))"
    "icolumns c' = icolumns (join_left c sel)" by simp_all
  moreover have "icolumns (join_left c sel) = icolumns c @ [''HORAS_EXTRA_NOM'', ''TOTAL_PAGAR_NOM'']"
    using select2_keys [OF s] by (simp add: join_left_def)
  ultimately show ?thesis using join_left_keys [of c sel] by simp
qed

subsection \<open>The numeric columns\<close>

lemma set_cell_other:
  "j \<noteq> i \<Longrightarrow> cell_at (set_cell r i v) j = cell_at r j"
  by (auto simp: cell_at_def set_cell_def nth_append)

lemma set_cell_same:
  "cell_at (set_cell r i v) i = v"
  by (auto simp: cell_at_def set_cell_def)

lemma coerce_column_simps:
  "columns (coerce_column df i) = columns df"
  "length (rows (coerce_column df i)) = length (rows df)"
  by (simp_all add: coerce_column_def)

lemma coerce_column_other:
  "j \<noteq> i \<Longrightarrow> map (\<lambda>r. cell_at r j) (rows (coerce_column df i)) = map (\<lambda>r. cell_at r j) (rows df)"
  by (simp add: coerce_column_def comp_def set_cell_other)

lemma coerce_column_same:
  "map (\<lambda>r. cell_at r i) (rows (coerce_column df i)) =
   map (\<lambda>r. Num (numeric_fillna0 (cell_at r i))) (rows df)"
  by (simp add: coerce_column_def comp_def set_cell_same)

lemma numeric_at_coerce_same: "numeric_at i (coerce_column df i)"
  by (auto simp: numeric_at_def coerce_column_def set_cell_same)

lemma numeric_at_coerce_kept: "numeric_at i df \<Longrightarrow> numeric_at i (coerce_column df j)"
  by (cases "i = j") (auto simp: numeric_at_def coerce_column_def set_cell_same set_cell_other)

lemma convert_num_cols_columns:
  "convert_num_cols cs df = Inr d \<Longrightarrow> columns d = columns df"
  by (induction cs arbitrary: df) (auto simp: coerce_column_simps split: if_splits sum.splits)

lemma convert_num_cols_numeric_kept:
  "convert_num_cols cs df = Inr d \<Longrightarrow> numeric_at i df \<Longrightarrow> numeric_at i d"
  by (induction cs arbitrary: df) (auto simp: numeric_at_coerce_kept split: if_splits sum.splits)

lemma convert_num_cols_numeric:
  "convert_num_cols cs df = Inr d \<Longrightarrow> col \<in> set cs \<Longrightarrow> col_index (columns df) col = Inr i \<Longrightarrow>
   numeric_at i d"
proof (induction cs arbitrary: df)
  case Nil
  then show ?case by simp
next
  case (Cons c cs)
  show ?case
  proof (cases "c = col")
    case True
    from Cons.prems(3) have "col \<in> set (columns df)"
      by (metis col_index_InrD nth_mem)
    with True Cons.prems have "convert_num_cols cs (coerce_column df i) = Inr d" by simp
    then show ?thesis
      using numeric_at_coerce_same convert_num_cols_numeric_kept by blast
  next
    case False
    with Cons.prems(2) have in_cs: "col \<in> set cs" by simp
    show ?thesis
    proof (cases "c \<in> set (columns df)")
      case True
      with Cons.prems(1) obtain j where "convert_num_cols cs (coerce_column df j) = Inr d"
        by (auto split: sum.splits)
      with Cons.IH [of "coerce_column df j"] in_cs Cons.prems(3) show ?thesis
        by (simp add: coerce_column_simps)
    next
      case False
      with Cons.prems(1) have "convert_num_cols cs df = Inr d" by simp
      with Cons.IH [of df] in_cs Cons.prems(3) show ?thesis by simp
    qed
  qed
qed

lemma convert_num_cols_other:
  "convert_num_cols cs df = Inr d \<Longrightarrow> j < length (columns df) \<longrightarrow> columns df ! j \<notin> set cs \<Longrightarrow>
   map (\<lambda>r. cell_at r j) (rows d) = map (\<lambda>r. cell_at r j) (rows df)"
proof (induction cs arbitrary: df)
  case Nil
  then show ?case by simp
next
  case (Cons c cs)
  show ?case
  proof (cases "c \<in> set (columns df)")
    case True
    with Cons.prems(1) obtain i where i: "col_index (columns df) c = Inr i"
      "convert_num_cols cs (coerce_column df i) = Inr d"
      by (auto split: sum.splits)
    from i(1) Cons.prems(2) have "j \<noteq> i"
      using col_index_InrD by fastforce
    with Cons.IH [OF i(2)] Cons.prems(2) show ?thesis
      by (simp add: coerce_column_simps coerce_column_other)
  next
    case False
    with Cons.prems have "convert_num_cols cs df = Inr d" by simp
    with Cons.IH [of df] Cons.prems(2) show ?thesis by simp
  qed
qed

subsection \<open>The payroll table\<close>

lemma map_upd_SomeE:
  assumes "(m(a \<mapsto> b)) k = Some v"
  obtains "v = b" | "m k = Some v"
  using assms by (cases "k = a") auto

lemma rename_map_nom_range:
  "rename_map_nom cols k = Some v \<Longrightarrow> v \<in> set num_cols"
  unfolding rename_map_nom_def
  by (elim map_upd_SomeE) (simp_all add: num_cols_def)

lemma rename_nom_cedula:
  assumes "(case rename_map_nom cols (Some c) of None \<Rightarrow> c | Some n \<Rightarrow> n) = ''CEDULA''"
  shows "c = ''CEDULA''"
proof (cases "rename_map_nom cols (Some c)")
  case None
  with assms show ?thesis by simp
next
  case (Some v)
  with rename_map_nom_range have "v \<in> set num_cols" by blast
  moreover from Some assms have "v = ''CEDULA''" by simp
  ultimately show ?thesis by (simp add: num_cols_def)
qed

lemma process_nomina_stages:
  assumes "process_nomina df = Inr nom"
  shows "\<exists>m d d'. filter_cedula (rename df m) = Inr d \<and>
           convert_num_cols num_cols (rename d (rename_map_nom (columns d))) = Inr d' \<and>
           set_index d' ''CEDULA'' = Inr nom"
proof -
  define m :: rename_map where "m = [find_column (columns df) [PAT_CEDULA, ''ID''] \<mapsto> ''CEDULA'']"
  show ?thesis
  proof (cases "filter_cedula (rename df m)")
    case (Inl e)
    with assms show ?thesis by (simp add: process_nomina_def m_def)
  next
    case d: (Inr d)
    show ?thesis
    proof (cases "convert_num_cols num_cols (rename d (rename_map_nom (columns d)))")
      case (Inl e)
      with d assms show ?thesis by (simp add: process_nomina_def m_def)
    next
      case (Inr d')
      with d assms have "set_index d' ''CEDULA'' = Inr nom"
        by (simp add: process_nomina_def m_def)
      with d Inr show ?thesis by blast
    qed
  qed
qed

lemma process_nomina_keys:
  assumes "process_nomina df = Inr nom"
  shows "list_all has_cedula (map fst (irows nom)) \<and> ''CEDULA'' \<notin> set (icolumns nom)"
proof -
  from process_nomina_stages [OF assms] obtain m d d' where
    d: "filter_cedula (rename df m) = Inr d"
    and d': "convert_num_cols num_cols (rename d (rename_map_nom (columns d))) = Inr d'"
    and nom: "set_index d' ''CEDULA'' = Inr nom" by blast
  from filter_cedula_cells [OF d] obtain i where
    i: "col_index (columns d) ''CEDULA'' = Inr i" "\<forall>r \<in> set (rows d). has_cedula (cell_at r i)"
    by auto
  from set_index_keys [OF nom] obtain i' where
    i': "col_index (columns d') ''CEDULA'' = Inr i'"
    "map fst (irows nom) = map (\<lambda>r. cell_at r i') (rows d')"
    "''CEDULA'' \<notin> set (icolumns nom)" by blast
  let ?r = "rename d (rename_map_nom (columns d))"
  have cols: "columns d' = columns ?r" using d' by (rule convert_num_cols_columns)
  from col_index_InrD [OF i'(1)] cols
  have lt: "i' < length (columns d)" and at: "columns ?r ! i' = ''CEDULA''"
    by (simp_all add: rename_def)
  from lt at have "(case rename_map_nom (columns d) (Some (columns d ! i')) of
      None \<Rightarrow> columns d ! i' | Some n \<Rightarrow> n) = ''CEDULA''"
    by (simp add: rename_def)
  then have "columns d ! i' = ''CEDULA''" by (rule rename_nom_cedula)
  with lt col_index_InrD [OF i(1)] have "i' = i" by blast
  have "columns ?r ! i' \<notin> set num_cols" using at by (simp add: num_cols_def)
  with convert_num_cols_other [OF d', of i']
  have "map (\<lambda>r. cell_at r i') (rows d') = map (\<lambda>r. cell_at r i') (rows ?r)" by blast
  then have "map fst (irows nom) = map (\<lambda>r. cell_at r i) (rows d)"
    using i'(2) \<open>i' = i\<close> by (simp add: rename_def)
  with i(2) i'(3) show ?thesis by (simp add: list_all_iff)
qed

lemma load_data_stages:
  assumes "load_data wb = Inr m"
  shows "\<exists>e c n emp com nom com'.
           required_sheet wb (''hoja 1'', ''INFORMACION'') = Inr e \<and>
           required_sheet wb (''hoja 3'', ''COMENTARIOS'') = Inr c \<and>
           required_sheet wb (''hoja 4'', ''NOMINA'') = Inr n \<and>
           process_empleados e = Inr emp \<and> process_comentarios c = Inr com \<and>
           process_nomina n = Inr nom \<and> combine_comentarios com nom = Inr com' \<and>
           m = \<lparr>empleados = emp, comentarios = reset_index ''CEDULA'' com',
                nomina = reset_index ''CEDULA'' nom,
                horas_extras = process_horas_extras (df_horas_extras_list wb),
                he_sheet_names = he_sheet_names_of wb\<rparr>"
proof -
  from assms obtain e c n where "required_sheet wb (''hoja 1'', ''INFORMACION'') = Inr e"
    "required_sheet wb (''hoja 3'', ''COMENTARIOS'') = Inr c"
    "required_sheet wb (''hoja 4'', ''NOMINA'') = Inr n" "load_frames wb e c n = Inr m"
    by (auto simp: load_data_def split: sum.splits)
  then show ?thesis
    by (fastforce simp: load_frames_def split: sum.splits)
qed

subsection \<open>Columns after the index is put back\<close>








subsection \<open>Row counts of the join\<close>

lemma join_row_length:
  "length (join_row n right l) = max 1 (length (filter (\<lambda>r. fst r = fst l) right))"
  by (cases "filter (\<lambda>r. fst r = fst l) right") (simp_all add: join_row_def)

lemma join_left_length:
  "length (irows (join_left left right)) =
   sum_list (map (\<lambda>l. max 1 (length (filter (\<lambda>r. fst r = fst l) (irows right)))) (irows left))"
  by (simp add: join_left_def length_concat comp_def join_row_length)

lemma distinct_keys_filter:
  "distinct (map fst rs) \<Longrightarrow> length (filter (\<lambda>r. fst r = k) rs) \<le> 1"
  by (induction rs) (auto simp: image_iff filter_empty_conv)

lemma fillna0_col_length:
  "fillna0_col df label = Inr d \<Longrightarrow> length (irows d) = length (irows df)"
  using fillna0_col_keys [of df label d] by (metis length_map)

lemma filter_key_length:
  "map fst rs = map fst rs' \<Longrightarrow>
   length (filter (\<lambda>r. fst r = k) rs) = length (filter (\<lambda>r. fst r = k) rs')"
  by (induction rs arbitrary: rs') (auto simp: Cons_eq_map_conv)

subsection \<open>Unresolved columns of the comments sheet\<close>







subsection \<open>Totals of the pivot\<close>





lemma total_where_mset:
  "total_where P es = sum_mset (image_mset (\<lambda>e. snd (snd e)) (filter_mset P (mset es)))"
  by (simp add: total_where_def sum_mset_sum_list [symmetric])

lemma sort_remdups_set:
  "set xs = set ys \<Longrightarrow> sort (remdups xs) = sort (remdups ys)"
  by (metis sorted_list_of_set_sort_remdups)

lemma pivot_table_order:
  assumes "mset es = mset es'"
  shows "pivot_table es = pivot_table es'"
proof -
  from assms have s: "set es = set es'" by (metis set_mset_mset)
  then have n: "sort (remdups (map fst es)) = sort (remdups (map fst es'))"
    by (intro sort_remdups_set) simp
  from s have c: "sort (remdups (map (\<lambda>e. fst (snd e)) es)) = sort (remdups (map (\<lambda>e. fst (snd e)) es'))"
    by (intro sort_remdups_set) simp
  have t: "total_where P es = total_where P es'" for P
    by (simp add: total_where_mset assms)
  have t': "(\<lambda>P. total_where P es) = (\<lambda>P. total_where P es')"
    using t by (intro ext)
  have "pivot_table es =
     (let names = sort (remdups (map fst es));
          cs = sort (remdups (map (\<lambda>e. fst (snd e)) es));
          tw = (\<lambda>P. total_where P es)
      in if margins_name \<in> set names then Inl (ValueError margins_name)
         else Inr (Pivot (names @ [margins_name]) (cs @ [margins_name])
                (map (\<lambda>n. map (\<lambda>c. tw (\<lambda>e. fst e = n \<and> fst (snd e) = c)) cs
                            @ [tw (\<lambda>e. fst e = n)]) names
                 @ [map (\<lambda>c. tw (\<lambda>e. fst (snd e) = c)) cs
                    @ [tw (\<lambda>e. True)]])))" for es
    by (simp add: pivot_table_def Let_def)
  then show ?thesis
    by (simp only: n c t')
qed

subsection \<open>Names for rows without an employee\<close>

lemma join_on_unmatched:
  assumes "(x, n) \<in> set (join_on key df series)" "key x \<notin> fst ` set series"
  shows "n = NaN"
proof -
  from assms(1) obtain y where y: "y \<in> set df"
    "(x, n) \<in> set (case filter (\<lambda>p. fst p = key y) series of
                     [] \<Rightarrow> [(y, NaN)] | m # ms \<Rightarrow> map (\<lambda>p. (y, snd p)) (m # ms))"
    by (auto simp: join_on_def)
  show ?thesis
  proof (cases "filter (\<lambda>p. fst p = key y) series")
    case Nil
    with y(2) show ?thesis by simp
  next
    case (Cons m ms)
    with y(2) have "x = y" by auto
    moreover from Cons have "m \<in> set (filter (\<lambda>p. fst p = key y) series)" by simp
    ultimately have "key x \<in> fst ` set series" by force
    with assms(2) show ?thesis by simp
  qed
qed

lemma he_with_names_fallback:
  assumes "he_with_names df_empleados df_he = Inr named"
    and "master_column df_empleados ''NOMBRE'' = Inr names"
    and "(e, n) \<in> set named" "cedula e \<notin> fst ` set names"
  shows "n = cedula e"
proof -
  from assms(1,2) have "named = map (\<lambda>(e, n). (e, fillna (cedula e) n)) (join_on cedula df_he names)"
    by (simp add: he_with_names_def)
  with assms(3) obtain n0 where "(e, n0) \<in> set (join_on cedula df_he names)" "n = fillna (cedula e) n0"
    by auto
  with join_on_unmatched [OF this(1) assms(4)] show ?thesis by simp
qed

lemma comentarios_with_names_unmatched:
  assumes "comentarios_with_names df_empleados df_comentarios = Inr named"
    and "master_column df_empleados ''NOMBRE'' = Inr names"
    and "(k, n) \<in> set named" "k \<notin> fst ` set names"
  shows "n = NaN"
proof -
  from assms(1,2) obtain i where
    "named = map (\<lambda>(r, n). (cell_at r i, n)) (join_on (\<lambda>r. cell_at r i) (rows df_comentarios) names)"
    by (auto simp: comentarios_with_names_def split: sum.splits)
  with assms(3) obtain r where "(r, n) \<in> set (join_on (\<lambda>r. cell_at r i) (rows df_comentarios) names)"
    "k = cell_at r i" by auto
  with join_on_unmatched [OF this(1)] assms(4) show ?thesis by simp
qed

subsection \<open>Failure of the numeric conversion\<close>


section \<open>The claims\<close>

text \<open>
  C1 (counterexample). In the end-to-end scenario the base salary \<open>1.000.000\<close> does not
  become 1000000 in the payroll table.
\<close>

theorem C1_counterexample:
  "payroll_cells scenario_wb ''SALARIO_BASE'' \<noteq> Some [Num 1000000]"
  by (simp add: payroll_cells_def load_scenario get_column_def col_index_def cell_at_def)

text \<open>
  C1 (amended). The coercion is \<open>pd.to_numeric\<close> and knows no thousands separator: in
  the end-to-end scenario the base salary \<open>1.000.000\<close> is not a number for it and becomes
  0 in the payroll table, while the plain literal \<open>1000000\<close> of the same row becomes
  1000000.
\<close>

theorem C1_locale_string_becomes_zero:
  "payroll_cells scenario_wb ''SALARIO_BASE'' = Some [Num 0] \<and>
   payroll_cells scenario_wb ''TOTAL_PAGAR_NOM'' = Some [Num 1000000]"
  by (simp add: payroll_cells_def load_scenario get_column_def col_index_def cell_at_def)




text \<open>
  C3 (the code at the failing input). A comment whose identity 999 belongs to no employee
  comes out of the join of \<open>show_comentarios\<close> with the name NaN, which the header of
  its card prints as \<open>nan\<close>, not with its identity: that section has no
  \<open>fillna\<close> with the identity. The overtime section has it, and an overtime row of the
  same identity is shown under the name 999 (in general: lemmas
  \<open>he_with_names_fallback\<close> and \<open>comentarios_with_names_unmatched\<close>).
\<close>

theorem C3_comment_without_employee_shows_nan:
  "load_data unknown_commenter_wb = Inr unknown_commenter_model \<and>
   comentarios_with_names (empleados unknown_commenter_model) (comentarios unknown_commenter_model) =
     Inr [(Str ''1'', Str ''Ana''), (Str ''999'', NaN)] \<and>
   he_with_names (empleados unknown_commenter_model) [HeRow (Str ''999'') ''ENERO 2025'' ''RECARGO'' 2] =
     Inr [(HeRow (Str ''999'') ''ENERO 2025'' ''RECARGO'' 2, Str ''999'')]"
  by (simp add: load_unknown_commenter unknown_commenter_model_def comentarios_with_names_def
      he_with_names_def master_column_def join_on_def frame_defs)



text \<open>
  C5. The monthly sheet with the rows (A, 5, 0) and (B, 0, 3) under the month label
  \<open>ENERO 2025\<close> is reshaped into exactly the rows (A, ENERO 2025, first category, 5) and
  (B, ENERO 2025, second category, 3); and whatever the monthly tables are, every row
  that is kept has hours above 0, so that a melted row with hours 0 or below is gone.
\<close>

theorem C5_reshape:
  "overtime_of enero_wb =
     Inr [HeRow (Str ''A'') ''ENERO 2025'' ''HORA EXTRA DIURNA'' 5,
          HeRow (Str ''B'') ''ENERO 2025'' ''RECARGO NOCTURNO'' 3] \<and>
   (\<forall>e \<in> set (process_horas_extras ms). 0 < horas e)"
  using overtime_enero process_horas_extras_kept by blast

theorem C5_reshape_witness:
  "process_horas_extras (df_horas_extras_list enero_wb) =
     [HeRow (Str ''A'') ''ENERO 2025'' ''HORA EXTRA DIURNA'' 5,
      HeRow (Str ''B'') ''ENERO 2025'' ''RECARGO NOCTURNO'' 3] \<and>
   0 < horas (HeRow (Str ''A'') ''ENERO 2025'' ''HORA EXTRA DIURNA'' 5) \<and>
   0 < horas (HeRow (Str ''B'') ''ENERO 2025'' ''RECARGO NOCTURNO'' 3)"
  using C5_reshape [of "df_horas_extras_list enero_wb"]
  by (simp add: enero_months enero_rows)

text \<open>
  C6. A sheet is present when its name, trimmed and in upper case, equals the name of
  the role. If the sheet of one of the three roles is missing, \<open>load_data\<close> returns no
  model and reports a required sheet that is missing (the first one in the order of the
  mapping); if the other roles are present, that is the sheet in question.
\<close>

theorem C6_missing_required_sheet:
  assumes "(key, name) \<in> set REQUIRED_SHEETS_MAPPING"
      and "name \<notin> set (normalized_sheet_names wb)"
  shows "(\<exists>k n. load_data wb = Inl (MissingSheet n k) \<and> (k, n) \<in> set REQUIRED_SHEETS_MAPPING
            \<and> n \<notin> set (normalized_sheet_names wb))
         \<and> ((\<forall>e \<in> set REQUIRED_SHEETS_MAPPING.
                snd e \<noteq> name \<longrightarrow> snd e \<in> set (normalized_sheet_names wb))
              \<longrightarrow> load_data wb = Inl (MissingSheet name key))"
proof -
  let ?N = "set (normalized_sheet_names wb)"
  have first: "load_data wb = Inl (MissingSheet ''INFORMACION'' ''hoja 1'')"
    if "''INFORMACION'' \<notin> ?N"
    using that by (simp add: load_data_def required_sheet_missing)
  have second: "load_data wb = Inl (MissingSheet ''COMENTARIOS'' ''hoja 3'')"
    if "''INFORMACION'' \<in> ?N" "''COMENTARIOS'' \<notin> ?N"
    using required_sheet_present [OF that(1), of "''hoja 1''"] that(2)
    by (auto simp: load_data_def required_sheet_missing)
  have third: "load_data wb = Inl (MissingSheet ''NOMINA'' ''hoja 4'')"
    if "''INFORMACION'' \<in> ?N" "''COMENTARIOS'' \<in> ?N" "''NOMINA'' \<notin> ?N"
    using required_sheet_present [OF that(1), of "''hoja 1''"]
      required_sheet_present [OF that(2), of "''hoja 3''"] that(3)
    by (auto simp: load_data_def required_sheet_missing)
  from assms have cases: "(key, name) = (''hoja 1'', ''INFORMACION'') \<or>
      (key, name) = (''hoja 3'', ''COMENTARIOS'') \<or> (key, name) = (''hoja 4'', ''NOMINA'')"
    by (simp add: REQUIRED_SHEETS_MAPPING_def)
  show ?thesis
    using cases assms(2) first second third
    by (auto simp: REQUIRED_SHEETS_MAPPING_def)
qed

theorem C6_missing_required_sheet_witness:
  "(''hoja 4'', ''NOMINA'') \<in> set REQUIRED_SHEETS_MAPPING \<and>
   ''NOMINA'' \<notin> set (normalized_sheet_names no_nomina_wb) \<and>
   normalized_sheet_names no_nomina_wb = [''INFORMACION'', ''COMENTARIOS''] \<and>
   load_data no_nomina_wb = Inl (MissingSheet ''NOMINA'' ''hoja 4'')"
proof -
  have names: "normalized_sheet_names no_nomina_wb = [''INFORMACION'', ''COMENTARIOS'']"
    by (simp add: normalized_sheet_names_def no_nomina_wb_def str_defs)
  have req: "(''hoja 4'', ''NOMINA'') \<in> set REQUIRED_SHEETS_MAPPING"
    by (simp add: REQUIRED_SHEETS_MAPPING_def)
  have missing: "''NOMINA'' \<notin> set (normalized_sheet_names no_nomina_wb)"
    by (simp add: names)
  show ?thesis
    using C6_missing_required_sheet [OF req missing] names
    by (simp add: REQUIRED_SHEETS_MAPPING_def)
qed






text \<open>
  C9. In the model that \<open>load_data\<close> returns, the employees, the comments and the
  payroll table each have their column \<open>CEDULA\<close>, and no value of it is missing or the
  empty string; the same holds for the identity of every overtime row. So a row whose
  identity is null or empty is in none of the four tables.
\<close>

theorem C9_rows_without_identity_dropped:
  assumes "load_data wb = Inr m"
  shows "(\<exists>cs. get_column (empleados m) ''CEDULA'' = Inr cs \<and> list_all has_cedula cs) \<and>
         (\<exists>cs. get_column (comentarios m) ''CEDULA'' = Inr cs \<and> list_all has_cedula cs) \<and>
         (\<exists>cs. get_column (nomina m) ''CEDULA'' = Inr cs \<and> list_all has_cedula cs) \<and>
         list_all (\<lambda>e. has_cedula (cedula e)) (horas_extras m)"
proof -
  from load_data_stages [OF assms] obtain e c n emp com nom com' where
    emp: "process_empleados e = Inr emp" and com: "process_comentarios c = Inr com"
    and nom: "process_nomina n = Inr nom" and com': "combine_comentarios com nom = Inr com'"
    and m: "m = \<lparr>empleados = emp, comentarios = reset_index ''CEDULA'' com',
                nomina = reset_index ''CEDULA'' nom,
                horas_extras = process_horas_extras (df_horas_extras_list wb),
                he_sheet_names = he_sheet_names_of wb\<rparr>" by blast
  have 1: "\<exists>cs. get_column (empleados m) ''CEDULA'' = Inr cs \<and> list_all has_cedula cs"
    using process_empleados_column [OF emp] m by simp
  from process_comentarios_keys [OF com] combine_comentarios_keys [OF com']
  have sub: "set (map fst (irows com')) \<subseteq> set (map fst (irows com))"
    and ok: "\<forall>k \<in> set (map fst (irows com)). has_cedula k"
    and cols: "icolumns com' = [''COMENTARIOS'', ''HORAS_EXTRA_NOM'', ''TOTAL_PAGAR_NOM'']"
    by (simp_all add: list_all_iff)
  from sub ok have k: "list_all has_cedula (map fst (irows com'))"
    unfolding list_all_iff by blast
  from cols have "''CEDULA'' \<notin> set (icolumns com')" by simp
  from get_column_reset_index [OF this] k m
  have 2: "\<exists>cs. get_column (comentarios m) ''CEDULA'' = Inr cs \<and> list_all has_cedula cs"
    by simp
  from process_nomina_keys [OF nom] get_column_reset_index [of "''CEDULA''" nom] m
  have 3: "\<exists>cs. get_column (nomina m) ''CEDULA'' = Inr cs \<and> list_all has_cedula cs"
    by simp
  have 4: "list_all (\<lambda>e. has_cedula (cedula e)) (horas_extras m)"
    using process_horas_extras_kept m by (simp add: list_all_iff)
  from 1 2 3 4 show ?thesis by blast
qed

theorem C9_rows_without_identity_dropped_witness:
  "load_data blank_keys_wb = Inr blank_keys_model \<and>
   get_column (empleados blank_keys_model) ''CEDULA'' = Inr [Str ''1''] \<and>
   get_column (comentarios blank_keys_model) ''CEDULA'' = Inr [Str ''1''] \<and>
   get_column (nomina blank_keys_model) ''CEDULA'' = Inr [Str ''1''] \<and>
   map cedula (horas_extras blank_keys_model) = [Str ''1''] \<and>
   has_cedula (Str ''1'') \<and> \<not> has_cedula NaN \<and> \<not> has_cedula (Str [])"
  using C9_rows_without_identity_dropped [OF load_blank_keys]
  by (simp add: load_blank_keys blank_keys_model_def get_column_def col_index_def cell_at_def has_cedula_def)

text \<open>
  C10. The join that copies the payroll figures into the comments returns, for each
  comment, one row for every payroll row with its identity, and one row when there is
  none. Its number of rows is therefore the sum of those counts; it is the number of
  comments when no two payroll rows share an identity, and it is larger as soon as a
  comment meets several payroll rows (lemma \<open>comments_payroll_twice\<close>: one comment,
  two rows in the model).
\<close>

theorem C10_join_row_count:
  assumes "combine_comentarios df_comentarios df_nomina = Inr d"
  shows "length (irows d) =
           sum_list (map (\<lambda>l. max 1 (length (filter (\<lambda>r. fst r = fst l) (irows df_nomina))))
                      (irows df_comentarios)) \<and>
         (distinct (map fst (irows df_nomina)) \<longrightarrow> length (irows d) = length (irows df_comentarios))"
proof -
  from assms obtain sel d1 where
    s: "select2 df_nomina ''HORAS_EXTRA_NOM'' ''TOTAL_PAGAR_NOM'' = Inr sel"
    and d1: "fillna0_col (join_left df_comentarios sel) ''HORAS_EXTRA_NOM'' = Inr d1"
    and d: "fillna0_col d1 ''TOTAL_PAGAR_NOM'' = Inr d"
    by (auto simp: combine_comentarios_def split: sum.splits)
  from select2_keys [OF s] have keys: "map fst (irows sel) = map fst (irows df_nomina)" by simp
  have count: "length (filter (\<lambda>r. fst r = k) (irows sel)) =
      length (filter (\<lambda>r. fst r = k) (irows df_nomina))" for k
    using keys by (rule filter_key_length)
  have len: "length (irows d) = length (irows (join_left df_comentarios sel))"
    using fillna0_col_length [OF d] fillna0_col_length [OF d1] by simp
  then have total: "length (irows d) =
      sum_list (map (\<lambda>l. max 1 (length (filter (\<lambda>r. fst r = fst l) (irows df_nomina))))
        (irows df_comentarios))"
    by (simp add: join_left_length count)
  have "length (irows d) = length (irows df_comentarios)" if "distinct (map fst (irows df_nomina))"
  proof -
    have "max 1 (length (filter (\<lambda>r. fst r = k) (irows df_nomina))) = 1" for k
      using distinct_keys_filter [OF that, of k] by simp
    with total show ?thesis by (simp add: sum_list_triv)
  qed
  with total show ?thesis by blast
qed

theorem C10_join_row_count_witness:
  "combine_comentarios one_comment payroll_once =
     Inr (IFrame [''COMENTARIOS'', ''HORAS_EXTRA_NOM'', ''TOTAL_PAGAR_NOM'']
            [(Str ''1'', [Str ''hola'', Num 1, Num 10])]) \<and>
   distinct (map fst (irows payroll_once)) \<and>
   length (irows (IFrame [''COMENTARIOS'', ''HORAS_EXTRA_NOM'', ''TOTAL_PAGAR_NOM'']
            [(Str ''1'', [Str ''hola'', Num 1, Num 10])])) = length (irows one_comment) \<and>
   combine_comentarios one_comment payroll_twice =
     Inr (IFrame [''COMENTARIOS'', ''HORAS_EXTRA_NOM'', ''TOTAL_PAGAR_NOM'']
            [(Str ''1'', [Str ''hola'', Num 1, Num 10]), (Str ''1'', [Str ''hola'', Num 2, Num 20])]) \<and>
   length (irows one_comment) = 1"
proof -
  have once: "combine_comentarios one_comment payroll_once =
     Inr (IFrame [''COMENTARIOS'', ''HORAS_EXTRA_NOM'', ''TOTAL_PAGAR_NOM'']
            [(Str ''1'', [Str ''hola'', Num 1, Num 10])])"
    by (simp add: combine_comentarios_def one_comment_def payroll_once_def frame_defs)
  have twice: "combine_comentarios one_comment payroll_twice =
     Inr (IFrame [''COMENTARIOS'', ''HORAS_EXTRA_NOM'', ''TOTAL_PAGAR_NOM'']
            [(Str ''1'', [Str ''hola'', Num 1, Num 10]), (Str ''1'', [Str ''hola'', Num 2, Num 20])])"
    by (simp add: combine_comentarios_def one_comment_def payroll_twice_def frame_defs)
  have dist: "distinct (map fst (irows payroll_once))" by (simp add: payroll_once_def)
  show ?thesis
    using C10_join_row_count [OF once] once twice dist by (simp add: one_comment_def)
qed

end
